theory Spec2Isabelle
  imports Complex_Main
begin

section \<open>Numbers of the source language\<close>

text \<open>
  The numeric-input helpers compute with JavaScript numbers, which are IEEE 754 doubles.
  A number is modelled by the value it denotes: not-a-number, one of the two infinities,
  or a rational. The doubles are some of the rationals; every arithmetic operation
  computes the exact result and rounds it to the nearest double, ties going to the even
  significand, as the language does. The two zeros are one value.
\<close>

datatype number = NaN | NegInfinity | Num rat | PosInfinity

definition MAX_SAFE_INTEGER :: number where
  "MAX_SAFE_INTEGER = Num 9007199254740991"

definition MIN_SAFE_INTEGER :: number where
  "MIN_SAFE_INTEGER = Num (- 9007199254740991)"

text \<open>The number of binary digits of a positive integer.\<close>

function bitLength :: "int \<Rightarrow> nat" where
  "bitLength n = (if n \<le> 0 then 0 else Suc (bitLength (n div 2)))"
  by pat_completeness auto
termination
  by (relation "measure nat") auto

declare bitLength.simps [simp del]

text \<open>The power \<open>2 ^ k\<close> for an integer \<open>k\<close>.\<close>

definition pow2 :: "int \<Rightarrow> rat" where
  "pow2 k = (if 0 \<le> k then of_int (2 ^ nat k) else 1 / of_int (2 ^ nat (- k)))"

text \<open>
  The binary exponent of a positive rational \<open>x\<close>: the integer \<open>e\<close> with
  \<open>2 ^ e \<le> x < 2 ^ (e + 1)\<close>, found from the bit lengths of numerator and denominator.
\<close>

definition floorLog2 :: "rat \<Rightarrow> int" where
  "floorLog2 x =
     (let (a, b) = quotient_of x;
          la = bitLength a;
          lb = bitLength b
      in if b * 2 ^ la \<le> a * 2 ^ lb then int la - int lb else int la - int lb - 1)"

text \<open>Rounding to the nearest integer, a tie going to the even one.\<close>

definition roundHalfEven :: "rat \<Rightarrow> int" where
  "roundHalfEven y =
     (let f = \<lfloor>y\<rfloor>; r = y - of_int f
      in if r < 1 / 2 then f
         else if 1 / 2 < r then f + 1
         else if even f then f else f + 1)"

definition signed_infinity :: "rat \<Rightarrow> number" where
  "signed_infinity s = (if s < 0 then NegInfinity else PosInfinity)"

text \<open>
  Rounding a rational to the nearest double. A double has 53 significant bits, so the
  doubles of binary exponent \<open>e\<close> are the multiples of \<open>2 ^ (e - 52)\<close>; the exponent is at
  least -1022, below which the subnormal numbers keep the spacing \<open>2 ^ -1074\<close>; a result
  of magnitude \<open>2 ^ 1024\<close> or more is an infinity.
\<close>

definition roundToDouble :: "rat \<Rightarrow> number" where
  "roundToDouble x =
     (if x = 0 then Num 0
      else
        let e = max (floorLog2 \<bar>x\<bar>) (- 1022);
            n = roundHalfEven (x * pow2 (52 - e));
            y = of_int n * pow2 (e - 52)
        in if pow2 1024 \<le> \<bar>y\<bar> then signed_infinity x else Num y)"

text \<open>The relational operators: every comparison with \<open>NaN\<close> is false.\<close>

fun num_lt :: "number \<Rightarrow> number \<Rightarrow> bool" where
  "num_lt (Num a) (Num b) = (a < b)"
| "num_lt NegInfinity (Num b) = True"
| "num_lt NegInfinity PosInfinity = True"
| "num_lt (Num a) PosInfinity = True"
| "num_lt _ _ = False"

definition num_gt :: "number \<Rightarrow> number \<Rightarrow> bool" where
  "num_gt a b = num_lt b a"

definition num_le :: "number \<Rightarrow> number \<Rightarrow> bool" where
  "num_le a b = (a \<noteq> NaN \<and> b \<noteq> NaN \<and> \<not> num_lt b a)"

definition num_ge :: "number \<Rightarrow> number \<Rightarrow> bool" where
  "num_ge a b = num_le b a"

text \<open>
  Arithmetic: the exact result rounded to a double, with the special values propagated
  as the language does.
\<close>

fun num_neg :: "number \<Rightarrow> number" where
  "num_neg NaN = NaN"
| "num_neg NegInfinity = PosInfinity"
| "num_neg PosInfinity = NegInfinity"
| "num_neg (Num a) = Num (- a)"

fun num_add :: "number \<Rightarrow> number \<Rightarrow> number" where
  "num_add (Num a) (Num b) = roundToDouble (a + b)"
| "num_add NaN _ = NaN"
| "num_add _ NaN = NaN"
| "num_add PosInfinity NegInfinity = NaN"
| "num_add NegInfinity PosInfinity = NaN"
| "num_add PosInfinity _ = PosInfinity"
| "num_add _ PosInfinity = PosInfinity"
| "num_add NegInfinity _ = NegInfinity"
| "num_add _ NegInfinity = NegInfinity"

definition num_sub :: "number \<Rightarrow> number \<Rightarrow> number" where
  "num_sub a b = num_add a (num_neg b)"

text \<open>The sign of a number that is not \<open>NaN\<close>: \<open>-1\<close>, \<open>0\<close> or \<open>1\<close>.\<close>

fun num_sgn :: "number \<Rightarrow> rat" where
  "num_sgn (Num a) = sgn a"
| "num_sgn PosInfinity = 1"
| "num_sgn NegInfinity = - 1"
| "num_sgn NaN = 0"

fun num_mul :: "number \<Rightarrow> number \<Rightarrow> number" where
  "num_mul (Num a) (Num b) = roundToDouble (a * b)"
| "num_mul NaN _ = NaN"
| "num_mul _ NaN = NaN"
| "num_mul a b =
     (if num_sgn a = 0 \<or> num_sgn b = 0 then NaN
      else signed_infinity (num_sgn a * num_sgn b))"

text \<open>
  Division. A finite non-zero number divided by zero is an infinity; its sign is given
  here for the positive zero. The only division of the helpers has \<open>step\<close> as divisor,
  and there either infinity is multiplied by the zero step right away, which is \<open>NaN\<close>.
\<close>

fun num_div :: "number \<Rightarrow> number \<Rightarrow> number" where
  "num_div NaN _ = NaN"
| "num_div _ NaN = NaN"
| "num_div (Num a) (Num b) =
     (if b = 0 then (if a = 0 then NaN else signed_infinity a) else roundToDouble (a / b))"
| "num_div (Num a) _ = Num 0"
| "num_div a (Num b) = signed_infinity (num_sgn a * (if b < 0 then - 1 else 1))"
| "num_div _ _ = NaN"

fun num_floor :: "number \<Rightarrow> number" where
  "num_floor (Num a) = Num (of_int \<lfloor>a\<rfloor>)"
| "num_floor a = a"

fun num_abs :: "number \<Rightarrow> number" where
  "num_abs (Num a) = Num \<bar>a\<bar>"
| "num_abs NaN = NaN"
| "num_abs _ = PosInfinity"

text \<open>\<open>Number.isInteger\<close>: finite and without a fractional part.\<close>

fun isInteger :: "number \<Rightarrow> bool" where
  "isInteger (Num a) = (of_int \<lfloor>a\<rfloor> = a)"
| "isInteger _ = False"

text \<open>Truthiness of a number: everything but zero and \<open>NaN\<close>.\<close>

fun truthy :: "number \<Rightarrow> bool" where
  "truthy NaN = False"
| "truthy (Num a) = (a \<noteq> 0)"
| "truthy _ = True"

section \<open>The constraint validator\<close>

datatype ErrorCode =
    INCORRECT_NUMBER
  | NEGATIVE_VALUE_IS_NOT_ALLOWED
  | FRACTION_IS_NOT_ALLOWED
  | NUMBER_LESS_THAN_MIN_ALLOWED
  | NUMBER_GREATER_THAN_MAX_ALLOWED

text \<open>
  The parameters of \<open>getNumericInputValidator\<close>. An optional bound that is not given is
  \<open>None\<close>; the fields \<open>min\<close> and \<open>max\<close> of the source are \<open>minP\<close> and \<open>maxP\<close> here.
\<close>

record GetNumericInputValidatorParams =
  positiveOnly :: bool
  withoutFraction :: bool
  minP :: "number option"
  maxP :: "number option"

text \<open>
  The closure \<open>validator\<close> returned by \<open>getNumericInputValidator\<close>, as a function of the
  parameters it closes over. The value \<open>None\<close> of the argument is \<open>null\<close>, the result
  \<open>None\<close> is \<open>undefined\<close> (the value is correct). The pattern string returned beside
  the closure takes no part in the validation and is left out.
\<close>

definition validator :: "GetNumericInputValidatorParams \<Rightarrow> number option \<Rightarrow> ErrorCode option" where
  "validator p val =
     (let minv = (case minP p of None \<Rightarrow> MIN_SAFE_INTEGER | Some m \<Rightarrow> m);
          maxv = (case maxP p of None \<Rightarrow> MAX_SAFE_INTEGER | Some m \<Rightarrow> m)
      in case val of
           None \<Rightarrow> None
         | Some v \<Rightarrow>
             if v = NaN then Some INCORRECT_NUMBER
             else if positiveOnly p \<and> num_lt v (Num 0) then Some NEGATIVE_VALUE_IS_NOT_ALLOWED
             else if withoutFraction p \<and> \<not> isInteger v then Some FRACTION_IS_NOT_ALLOWED
             else if num_lt v minv then Some NUMBER_LESS_THAN_MIN_ALLOWED
             else if num_gt v maxv then Some NUMBER_GREATER_THAN_MAX_ALLOWED
             else None)"

section \<open>The step clamper\<close>

datatype direction = Up | Down

text \<open>
  \<open>clampToNearestStepValue\<close>. The arguments \<open>min\<close>, \<open>max\<close> and \<open>direction\<close> may be
  \<open>undefined\<close> (\<open>None\<close>); \<open>max\<close> then defaults to the largest safe integer.
\<close>

definition clampToNearestStepValue ::
  "number \<Rightarrow> number \<Rightarrow> number option \<Rightarrow> number option \<Rightarrow> direction option \<Rightarrow> number" where
  "clampToNearestStepValue val step originalMin originalMax dir =
     (let maxv = (case originalMax of None \<Rightarrow> MAX_SAFE_INTEGER | Some m \<Rightarrow> m);
          base = (case originalMin of None \<Rightarrow> Num 0 | Some m \<Rightarrow> if truthy m then m else Num 0);
          minv = (case originalMin of None \<Rightarrow> MIN_SAFE_INTEGER | Some m \<Rightarrow> m);
          clampedValue =
            (if num_gt val maxv then maxv else if num_lt val minv then minv else val)
      in if \<not> isInteger val \<or> \<not> isInteger step then clampedValue
         else
           let amountOfStepsDiff = num_floor (num_div (num_sub clampedValue base) step);
               stepDeviation =
                 num_sub (num_sub clampedValue base) (num_mul step amountOfStepsDiff)
           in if stepDeviation \<noteq> Num 0 then
                let smallerPossibleValue = num_add base (num_mul amountOfStepsDiff step);
                    greaterPossibleValue =
                      num_add base (num_mul (num_add amountOfStepsDiff (Num 1)) step);
                    smallerValueIsPreferrable =
                      (case dir of
                         Some d \<Rightarrow> d = Up
                       | None \<Rightarrow>
                           num_gt (num_sub greaterPossibleValue clampedValue)
                                  (num_sub clampedValue smallerPossibleValue))
                in if (num_gt greaterPossibleValue maxv \<or> smallerValueIsPreferrable)
                      \<and> num_ge smallerPossibleValue minv
                   then smallerPossibleValue
                   else if num_le greaterPossibleValue maxv then greaterPossibleValue
                   else clampedValue
              else clampedValue)"


section \<open>The internal state of the input\<close>

text \<open>A property that may hold a number, \<open>null\<close> or \<open>undefined\<close>.\<close>

datatype nullish = Undefined | Null | Defined number

definition roundIfNecessary :: "number \<Rightarrow> bool \<Rightarrow> number" where
  "roundIfNecessary v allowDec = (if allowDec then v else num_floor v)"

text \<open>
  The properties read by \<open>getInternalState\<close>, under the names the function gives them
  when it takes the argument apart.
\<close>

record VariablesProps =
  externalMin :: "number option"
  externalMax :: "number option"
  externalStep :: number
  externalShiftMultiplier :: number
  externalValue :: nullish
  externalDefaultValue :: nullish
  allowDecimal :: bool

text \<open>
  The result of \<open>getInternalState\<close>; its fields \<open>min\<close>, \<open>max\<close>, \<open>step\<close>,
  \<open>shiftMultiplier\<close>, \<open>value\<close> and \<open>defaultValue\<close> carry the prefix \<open>state\<close> here.
\<close>

record InternalState =
  stateMin :: "number option"
  stateMax :: "number option"
  stateStep :: number
  stateShiftMultiplier :: number
  stateValue :: nullish
  stateDefaultValue :: nullish

definition roundNullish :: "nullish \<Rightarrow> bool \<Rightarrow> nullish" where
  "roundNullish x allowDec =
     (case x of
        Defined v \<Rightarrow> if truthy v then Defined (roundIfNecessary v allowDec) else x
      | _ \<Rightarrow> x)"

definition getInternalState :: "VariablesProps \<Rightarrow> InternalState" where
  "getInternalState props =
     (let (rangedMin, rangedMax) =
            (case (externalMin props, externalMax props) of
               (Some mn, Some mx) \<Rightarrow>
                 if truthy mn \<and> truthy mx \<and> num_gt mn mx
                 then (Some mx, Some mn) else (Some mn, Some mx)
             | other \<Rightarrow> other);
          minv = (case rangedMin of
                    Some m \<Rightarrow> if truthy m \<and> num_ge m MIN_SAFE_INTEGER then Some m else None
                  | None \<Rightarrow> None);
          maxv = (case rangedMax of
                    Some m \<Rightarrow> if truthy m \<and> num_le m MAX_SAFE_INTEGER then Some m else None
                  | None \<Rightarrow> None);
          st = roundIfNecessary (num_abs (externalStep props)) (allowDecimal props);
          sm = roundIfNecessary (externalShiftMultiplier props) (allowDecimal props)
      in \<lparr> stateMin = minv,
           stateMax = maxv,
           stateStep = (if truthy st then st else Num 1),
           stateShiftMultiplier = (if truthy sm then sm else Num 10),
           stateValue = roundNullish (externalValue props) (allowDecimal props),
           stateDefaultValue = roundNullish (externalDefaultValue props) (allowDecimal props) \<rparr>)"

section \<open>Sanitizing and extracting a number from text\<close>

text \<open>
  Strings are lists of characters, the characters being the code units below 256. The
  character classes of the regular expressions: \<open>\d\<close> is a decimal digit, \<open>\s\<close> a
  white space or line terminator.
\<close>

definition isDigit :: "char \<Rightarrow> bool" where
  "isDigit c = (c \<in> set ''0123456789'')"

definition isSpace :: "char \<Rightarrow> bool" where
  "isSpace c = (of_char c \<in> {9, 10, 11, 12, 13, 32, 160 :: nat})"

definition nonDigit :: "char \<Rightarrow> bool" where
  "nonDigit c = (\<not> isDigit c)"

definition isSign :: "char \<Rightarrow> bool" where
  "isSign c = (c = CHR ''-'' \<or> c = CHR ''+'')"

definition isSeparator :: "char \<Rightarrow> bool" where
  "isSeparator c = (c = CHR ''.'' \<or> c = CHR '','')"

text \<open>\<open>replace\<close> with a string pattern replaces the first occurrence only.\<close>

fun replaceFirst :: "char \<Rightarrow> char \<Rightarrow> string \<Rightarrow> string" where
  "replaceFirst a b [] = []"
| "replaceFirst a b (x # xs) = (if x = a then b # xs else x # replaceFirst a b xs)"

definition prepareStringValue :: "string \<Rightarrow> string" where
  "prepareStringValue v =
     filter (\<lambda>c. isDigit c \<or> c = CHR ''.'' \<or> c = CHR ''+'' \<or> c = CHR ''-'')
       (filter (\<lambda>c. \<not> isSpace c) (replaceFirst CHR '','' CHR ''.'' v))"

text \<open>
  The regular expressions of the module are sequences of quantified character classes,
  anchored at both ends. An item is a capturing group around \<open>c?\<close> or \<open>c*\<close>, the same
  without capture, or an optional capturing group \<open>(c)?\<close>. Matching is the backtracking
  search of the language: a greedy quantifier takes as many characters as it can and
  gives them back one at a time while the rest of the pattern fails.
\<close>

datatype atom = Opt "char \<Rightarrow> bool" | Many "char \<Rightarrow> bool"

datatype item = Group atom | NonCapture atom | OptGroup "char \<Rightarrow> bool"

fun atomMax :: "atom \<Rightarrow> string \<Rightarrow> nat" where
  "atomMax (Opt c) [] = 0"
| "atomMax (Opt c) (x # xs) = (if c x then 1 else 0)"
| "atomMax (Many c) s = length (takeWhile c s)"

text \<open>The first success among \<open>f n\<close>, \<open>f (n - 1)\<close>, ..., \<open>f 0\<close>.\<close>

fun firstMatch :: "(nat \<Rightarrow> 'a option) \<Rightarrow> nat \<Rightarrow> 'a option" where
  "firstMatch f 0 = f 0"
| "firstMatch f (Suc n) = (case f (Suc n) of Some r \<Rightarrow> Some r | None \<Rightarrow> firstMatch f n)"

text \<open>
  The captures of the groups, in order: \<open>None\<close> is the \<open>undefined\<close> of a group that
  did not take part in the match.
\<close>

fun matchItems :: "item list \<Rightarrow> string \<Rightarrow> string option list option" where
  "matchItems [] s = (if s = [] then Some [] else None)"
| "matchItems (Group a # r) s =
     firstMatch (\<lambda>n. map_option (\<lambda>caps. Some (take n s) # caps) (matchItems r (drop n s)))
       (atomMax a s)"
| "matchItems (NonCapture a # r) s =
     firstMatch (\<lambda>n. matchItems r (drop n s)) (atomMax a s)"
| "matchItems (OptGroup c # r) s =
     (case (case s of
              [] \<Rightarrow> None
            | x # xs \<Rightarrow>
                if c x then map_option (\<lambda>caps. Some [x] # caps) (matchItems r xs) else None) of
        Some res \<Rightarrow> Some res
      | None \<Rightarrow> map_option (\<lambda>caps. None # caps) (matchItems r s))"

text \<open>\<open>exec\<close>: the match array, the whole match at index 0, or \<open>None\<close> for \<open>null\<close>.\<close>

definition regexExec :: "item list \<Rightarrow> string \<Rightarrow> string option list option" where
  "regexExec re s = map_option (\<lambda>caps. Some s # caps) (matchItems re s)"

text \<open>\<^verbatim>\<open>/^([-+]?)(?:\D*)(\d*)(\.|,)?(\d*)(?:\D*)$/\<close>\<close>

definition pastedInputParsingRegex :: "item list" where
  "pastedInputParsingRegex =
     [Group (Opt isSign), NonCapture (Many nonDigit), Group (Many isDigit),
      OptGroup isSeparator, Group (Many isDigit), NonCapture (Many nonDigit)]"

text \<open>\<open>slice(start, end)\<close> for indices that are not negative; the end may be \<open>undefined\<close>.\<close>

definition slice :: "nat \<Rightarrow> nat option \<Rightarrow> 'a list \<Rightarrow> 'a list" where
  "slice b e xs = (case e of None \<Rightarrow> drop b xs | Some n \<Rightarrow> drop b (take n xs))"

text \<open>\<open>Boolean\<close> on a capture: \<open>undefined\<close> and the empty string are false.\<close>

definition Boolean :: "string option \<Rightarrow> bool" where
  "Boolean x = (case x of None \<Rightarrow> False | Some t \<Rightarrow> t \<noteq> [])"

definition join :: "string option list \<Rightarrow> string" where
  "join xs = concat (map (\<lambda>x. case x of None \<Rightarrow> [] | Some t \<Rightarrow> t) xs)"

definition getPossibleNumberSubstring :: "string \<Rightarrow> bool \<Rightarrow> string option" where
  "getPossibleNumberSubstring v allowDec =
     (let preparedString = prepareStringValue v
      in case regexExec pastedInputParsingRegex preparedString of
           None \<Rightarrow> None
         | Some m \<Rightarrow>
             if length v > 0 \<and> length preparedString = 0 then None
             else Some (join (filter Boolean
                                (slice 1 (if allowDec then None else Some 3) m))))"


section \<open>Parsing a candidate string\<close>

text \<open>
  The conversion \<open>Number(value)\<close> of a string is the language's own. It is modelled
  after the grammar of numeric string literals: white space around the literal is
  dropped, the empty string is zero, a literal is a binary, octal or hexadecimal integer
  without sign, or a decimal literal with an optional sign (\<open>Infinity\<close>, digits with an
  optional fraction and an optional exponent); every other string is \<open>NaN\<close>. The result
  is the value of the literal rounded to a double.
\<close>

definition trimString :: "string \<Rightarrow> string" where
  "trimString s = rev (dropWhile isSpace (rev (dropWhile isSpace s)))"

definition hexValue :: "char \<Rightarrow> int option" where
  "hexValue c =
     (if isDigit c then Some (of_char c - 48)
      else if c \<in> set ''abcdef'' then Some (of_char c - 87)
      else if c \<in> set ''ABCDEF'' then Some (of_char c - 55)
      else None)"

fun radixValue :: "int \<Rightarrow> int \<Rightarrow> string \<Rightarrow> int option" where
  "radixValue b acc [] = Some acc"
| "radixValue b acc (c # cs) =
     (case hexValue c of
        Some d \<Rightarrow> if d < b then radixValue b (b * acc + d) cs else None
      | None \<Rightarrow> None)"

definition decimalValue :: "string \<Rightarrow> int" where
  "decimalValue ds = foldl (\<lambda>n c. 10 * n + (of_char c - 48)) 0 ds"

definition parseNonDecimal :: "string \<Rightarrow> int option" where
  "parseNonDecimal t =
     (case t of
        z # x # rest \<Rightarrow>
          if z = CHR ''0'' \<and> rest \<noteq> [] then
            (if x = CHR ''b'' \<or> x = CHR ''B'' then radixValue 2 0 rest
             else if x = CHR ''o'' \<or> x = CHR ''O'' then radixValue 8 0 rest
             else if x = CHR ''x'' \<or> x = CHR ''X'' then radixValue 16 0 rest
             else None)
          else None
      | _ \<Rightarrow> None)"

definition parseExponent :: "string \<Rightarrow> int option" where
  "parseExponent r =
     (case r of
        [] \<Rightarrow> Some 0
      | e # t \<Rightarrow>
          if e = CHR ''e'' \<or> e = CHR ''E'' then
            (let (sg, ds) =
                   (case t of
                      [] \<Rightarrow> (1, [])
                    | c # u \<Rightarrow>
                        if c = CHR ''+'' then (1, u)
                        else if c = CHR ''-'' then (- 1, u) else (1, t))
             in if ds \<noteq> [] \<and> list_all isDigit ds then Some (sg * decimalValue ds)
                else None)
          else None)"

definition scale10 :: "int \<Rightarrow> int \<Rightarrow> rat" where
  "scale10 m e = (if 0 \<le> e then of_int (m * 10 ^ nat e) else of_int m / of_int (10 ^ nat (- e)))"

definition parseUnsignedDecimal :: "string \<Rightarrow> number option" where
  "parseUnsignedDecimal s =
     (if s = ''Infinity'' then Some PosInfinity
      else
        let ip = takeWhile isDigit s;
            r1 = dropWhile isDigit s;
            (fp, r2) =
              (case r1 of
                 [] \<Rightarrow> ([], [])
               | c # t \<Rightarrow>
                   if c = CHR ''.'' then (takeWhile isDigit t, dropWhile isDigit t)
                   else ([], r1))
        in if ip = [] \<and> fp = [] then None
           else case parseExponent r2 of
                  None \<Rightarrow> None
                | Some e \<Rightarrow>
                    Some (roundToDouble
                            (scale10 (decimalValue (ip @ fp)) (e - int (length fp)))))"

definition parseDecimal :: "string \<Rightarrow> number option" where
  "parseDecimal t =
     (case t of
        [] \<Rightarrow> None
      | c # u \<Rightarrow>
          if c = CHR ''+'' then parseUnsignedDecimal u
          else if c = CHR ''-'' then map_option num_neg (parseUnsignedDecimal u)
          else parseUnsignedDecimal t)"

definition StringToNumber :: "string \<Rightarrow> number" where
  "StringToNumber s =
     (let t = trimString s
      in if t = [] then Num 0
         else case parseNonDecimal t of
                Some n \<Rightarrow> roundToDouble (of_int n)
              | None \<Rightarrow> (case parseDecimal t of Some n \<Rightarrow> n | None \<Rightarrow> NaN))"

text \<open>
  The result of \<open>getParsedValue\<close>; its field \<open>value\<close> is \<open>valueOrNull\<close> here, with
  \<open>None\<close> for \<open>null\<close>. The argument \<open>None\<close> is \<open>undefined\<close>.
\<close>

record ParsedValue =
  valid :: bool
  valueOrNull :: "number option"

definition getParsedValue :: "string option \<Rightarrow> ParsedValue" where
  "getParsedValue v =
     (case v of
        None \<Rightarrow> \<lparr> valid = True, valueOrNull = None \<rparr>
      | Some s \<Rightarrow>
          if s = [] then \<lparr> valid = True, valueOrNull = None \<rparr>
          else
            let parsedValueOrNaN = StringToNumber s;
                isValidValue = (parsedValueOrNaN \<noteq> NaN);
                parsedValue = (if isValidValue then Some parsedValueOrNaN else None)
            in \<lparr> valid = isValidValue, valueOrNull = parsedValue \<rparr>)"


section \<open>The grammar of the extractor, as the specification words it\<close>

text \<open>
  The specification describes the extractor by a grammar: an optional leading sign, a run
  of non-digit characters, a digit run, optionally a single separator, a second digit
  run, and a trailing run of non-digit characters. Read as a language, with no order of
  search, a string belongs to a sequence of items when it splits into consecutive parts,
  one for each item: at most one character of the class for an optional item, any
  number of characters of the class for a run.
\<close>

fun atomAccepts :: "atom \<Rightarrow> string \<Rightarrow> bool" where
  "atomAccepts (Opt c) w = (case w of [] \<Rightarrow> True | x # t \<Rightarrow> t = [] \<and> c x)"
| "atomAccepts (Many c) w = list_all c w"

fun itemAccepts :: "item \<Rightarrow> string \<Rightarrow> bool" where
  "itemAccepts (Group a) w = atomAccepts a w"
| "itemAccepts (NonCapture a) w = atomAccepts a w"
| "itemAccepts (OptGroup c) w = atomAccepts (Opt c) w"

fun inLanguage :: "item list \<Rightarrow> string \<Rightarrow> bool" where
  "inLanguage [] s = (s = [])"
| "inLanguage (i # r) s =
     (\<exists>n \<in> set [0 ..< Suc (length s)]. itemAccepts i (take n s) \<and> inLanguage r (drop n s))"

text \<open>A string made of an optional leading sign followed by digits only.\<close>

definition signedDigits :: "string \<Rightarrow> bool" where
  "signedDigits r =
     (case r of [] \<Rightarrow> True | c # t \<Rightarrow> (isSign c \<or> isDigit c) \<and> list_all isDigit t)"

section \<open>Properties of rounding\<close>


lemma pow2_powi: "pow2 k = 2 powi k"
  by (simp add: pow2_def power_int_def power_inverse [symmetric] inverse_eq_divide power_one_over)



lemma pow2_nat: "pow2 (int n) = 2 ^ n"
  by (simp add: pow2_powi)


















section \<open>Properties of the step clamper\<close>













text \<open>
  Outside the bounds of exact arithmetic the boundaries themselves are missed: between
  -4503599627370496 and 9007199254740991 with step 3, the value 9007199254740990 going up
  ends on 9007199254740988, which is not on the lattice (the lower boundary is
  9007199254740989).
\<close>

lemma clamp_direction_rounding:
  "clampToNearestStepValue (Num 9007199254740990) (Num 3)
     (Some (Num (- 4503599627370496))) (Some (Num 9007199254740991)) (Some Up)
   = Num 9007199254740988"
  by code_simp









section \<open>Properties of the validator and of the internal state\<close>

text \<open>
  C6: the validator reports the first violation in the order sign, fraction, minimum,
  maximum. The value -5.5 under \<open>positiveOnly\<close> without fraction is reported as negative,
  and under such a configuration no negative and no non-integral number is accepted.
\<close>

theorem validator_check_order:
  "validator \<lparr>positiveOnly = True, withoutFraction = True, minP = mn, maxP = mx\<rparr>
       (Some (Num (- 11 / 2))) = Some NEGATIVE_VALUE_IS_NOT_ALLOWED
   \<and> (v \<noteq> NaN \<and> positiveOnly p \<and> num_lt v (Num 0)
        \<longrightarrow> validator p (Some v) = Some NEGATIVE_VALUE_IS_NOT_ALLOWED)
   \<and> (v \<noteq> NaN \<and> \<not> (positiveOnly p \<and> num_lt v (Num 0)) \<and> withoutFraction p \<and> \<not> isInteger v
        \<longrightarrow> validator p (Some v) = Some FRACTION_IS_NOT_ALLOWED)
   \<and> (v \<noteq> NaN \<and> \<not> (positiveOnly p \<and> num_lt v (Num 0)) \<and> \<not> (withoutFraction p \<and> \<not> isInteger v)
        \<and> num_lt v (case minP p of None \<Rightarrow> MIN_SAFE_INTEGER | Some m \<Rightarrow> m)
        \<longrightarrow> validator p (Some v) = Some NUMBER_LESS_THAN_MIN_ALLOWED)
   \<and> (v \<noteq> NaN \<and> \<not> (positiveOnly p \<and> num_lt v (Num 0)) \<and> \<not> (withoutFraction p \<and> \<not> isInteger v)
        \<and> \<not> num_lt v (case minP p of None \<Rightarrow> MIN_SAFE_INTEGER | Some m \<Rightarrow> m)
        \<and> num_gt v (case maxP p of None \<Rightarrow> MAX_SAFE_INTEGER | Some m \<Rightarrow> m)
        \<longrightarrow> validator p (Some v) = Some NUMBER_GREATER_THAN_MAX_ALLOWED)
   \<and> (positiveOnly p \<and> withoutFraction p \<and> (num_lt v (Num 0) \<or> \<not> isInteger v)
        \<longrightarrow> validator p (Some v) \<noteq> None)"
  by (simp add: validator_def Let_def)

theorem validator_check_order_witness:
  "validator \<lparr>positiveOnly = True, withoutFraction = True, minP = Some (Num 0), maxP = Some (Num 3)\<rparr>
      (Some (Num (- 11 / 2))) = Some NEGATIVE_VALUE_IS_NOT_ALLOWED
   \<and> validator \<lparr>positiveOnly = True, withoutFraction = True, minP = Some (Num 0), maxP = Some (Num 3)\<rparr>
      (Some (Num (- 5))) = Some NEGATIVE_VALUE_IS_NOT_ALLOWED
   \<and> validator \<lparr>positiveOnly = False, withoutFraction = True, minP = Some (Num 0), maxP = Some (Num 3)\<rparr>
      (Some (Num (- 11 / 2))) = Some FRACTION_IS_NOT_ALLOWED
   \<and> validator \<lparr>positiveOnly = False, withoutFraction = True, minP = Some (Num 0), maxP = Some (Num 3)\<rparr>
      (Some (Num (- 5))) = Some NUMBER_LESS_THAN_MIN_ALLOWED
   \<and> validator \<lparr>positiveOnly = False, withoutFraction = True, minP = Some (Num 0), maxP = Some (Num 3)\<rparr>
      (Some (Num 5)) = Some NUMBER_GREATER_THAN_MAX_ALLOWED
   \<and> validator \<lparr>positiveOnly = True, withoutFraction = True, minP = Some (Num 0), maxP = Some (Num 3)\<rparr>
      (Some (Num (11 / 2))) \<noteq> None"
proof -
  let ?p = "\<lparr>positiveOnly = True, withoutFraction = True, minP = Some (Num 0), maxP = Some (Num 3)\<rparr>"
  let ?q = "\<lparr>positiveOnly = False, withoutFraction = True, minP = Some (Num 0), maxP = Some (Num 3)\<rparr>"
  have a: "\<not> isInteger (Num (- 11 / 2))" "\<not> isInteger (Num (11 / 2))"
    "isInteger (Num (- 5))" "isInteger (Num 5)"
    by code_simp+
  from validator_check_order [of "Some (Num 0)" "Some (Num 3)" "Num (- 5)" ?p]
       validator_check_order [of "Some (Num 0)" "Some (Num 3)" "Num (- 11 / 2)" ?q]
       validator_check_order [of "Some (Num 0)" "Some (Num 3)" "Num (- 5)" ?q]
       validator_check_order [of "Some (Num 0)" "Some (Num 3)" "Num 5" ?q]
       validator_check_order [of "Some (Num 0)" "Some (Num 3)" "Num (11 / 2)" ?p] a
  show ?thesis by (simp add: num_gt_def del: isInteger.simps)
qed

text \<open>
  C5, as the specification states it: bounds given with \<open>min > max\<close> are swapped before
  any use, so that the validator behaves alike under \<open>{min: a, max: b}\<close> and
  \<open>{min: b, max: a}\<close>. The validator uses its bounds as they are given: 5 is below the
  minimum under \<open>{min: 10, max: 0}\<close> and correct under \<open>{min: 0, max: 10}\<close>.
\<close>

theorem validator_swap_counterexample:
  "validator \<lparr>positiveOnly = False, withoutFraction = False, minP = Some (Num 10), maxP = Some (Num 0)\<rparr>
      (Some (Num 5))
   \<noteq> validator \<lparr>positiveOnly = False, withoutFraction = False, minP = Some (Num 0), maxP = Some (Num 10)\<rparr>
      (Some (Num 5))"
  by (simp add: validator_def num_gt_def)

lemma gt_asym: "num_gt a b \<Longrightarrow> \<not> num_gt b a"
  by (cases a; cases b) (simp_all add: num_gt_def)

text \<open>
  C5, amended: the swap is made by \<open>getInternalState\<close>, not by the validator. When both
  bounds are given, are truthy (neither zero nor \<open>NaN\<close>) and \<open>min > max\<close>, the state is the one
  of the bounds in the right order: its minimum is the smaller bound and its maximum the
  greater one, each kept only inside the safe-integer range.
\<close>

theorem getInternalState_swaps_nonzero_bounds:
  assumes a: "truthy a" and b: "truthy b" and gt: "num_gt a b"
  shows "getInternalState (props\<lparr>externalMin := Some a, externalMax := Some b\<rparr>)
           = getInternalState (props\<lparr>externalMin := Some b, externalMax := Some a\<rparr>)
       \<and> stateMin (getInternalState (props\<lparr>externalMin := Some a, externalMax := Some b\<rparr>))
           = (if num_ge b MIN_SAFE_INTEGER then Some b else None)
       \<and> stateMax (getInternalState (props\<lparr>externalMin := Some a, externalMax := Some b\<rparr>))
           = (if num_le a MAX_SAFE_INTEGER then Some a else None)"
  using a b gt gt_asym [OF gt] by (simp add: getInternalState_def Let_def)

theorem getInternalState_swaps_nonzero_bounds_witness:
  "stateMin (getInternalState \<lparr>externalMin = Some (Num 10), externalMax = Some (Num 2),
       externalStep = Num 1, externalShiftMultiplier = Num 10, externalValue = Null,
       externalDefaultValue = Undefined, allowDecimal = False\<rparr>) = Some (Num 2)
   \<and> stateMax (getInternalState \<lparr>externalMin = Some (Num 10), externalMax = Some (Num 2),
       externalStep = Num 1, externalShiftMultiplier = Num 10, externalValue = Null,
       externalDefaultValue = Undefined, allowDecimal = False\<rparr>) = Some (Num 10)"
  using getInternalState_swaps_nonzero_bounds [of "Num 10" "Num 2"
     "\<lparr>externalMin = None, externalMax = None,
       externalStep = Num 1, externalShiftMultiplier = Num 10, externalValue = Null,
       externalDefaultValue = Undefined, allowDecimal = False\<rparr>", THEN conjunct2]
  by (simp add: num_gt_def num_ge_def num_le_def MIN_SAFE_INTEGER_def MAX_SAFE_INTEGER_def)

text \<open>
  The bounds are tested for truthiness, so a bound equal to zero counts as absent: the
  bounds 5 and 0 are not swapped, and the maximum is dropped.
\<close>

lemma getInternalState_zero_bound:
  "stateMin (getInternalState \<lparr>externalMin = Some (Num 5), externalMax = Some (Num 0),
       externalStep = Num 1, externalShiftMultiplier = Num 10, externalValue = Null,
       externalDefaultValue = Undefined, allowDecimal = False\<rparr>) = Some (Num 5)
   \<and> stateMax (getInternalState \<lparr>externalMin = Some (Num 5), externalMax = Some (Num 0),
       externalStep = Num 1, externalShiftMultiplier = Num 10, externalValue = Null,
       externalDefaultValue = Undefined, allowDecimal = False\<rparr>) = None"
  by code_simp

section \<open>Properties of the parser\<close>

text \<open>
  C2: the parser is expected to return a number in every case, zero for an undefined or
  empty candidate and for a string that is not numeric, as the tests of the module say.
  The code returns \<open>null\<close> in these cases.
\<close>

theorem getParsedValue_null_evaluation:
  "getParsedValue None = \<lparr>valid = True, valueOrNull = None\<rparr>
   \<and> getParsedValue (Some []) = \<lparr>valid = True, valueOrNull = None\<rparr>
   \<and> getParsedValue (Some ''-'') = \<lparr>valid = False, valueOrNull = None\<rparr>
   \<and> getParsedValue (Some ''abc123def'') = \<lparr>valid = False, valueOrNull = None\<rparr>"
  by code_simp

section \<open>Properties of the extractor\<close>

text \<open>
  C4: the extractor is expected to reject \<open>$123abc.45k\<close>. The sanitizer removes the
  letters before the expression is applied, and the extractor returns \<open>123.45\<close>.
\<close>

theorem extract_mixed_letters_evaluation:
  "getPossibleNumberSubstring ''$123abc.45k'' True = Some ''123.45''"
  by code_simp


text \<open>
  The backtracking search finds a match exactly for the strings of the language: the
  order in which it tries the alternatives decides the captures, not the success.
\<close>

lemma firstMatch_None: "firstMatch f n = None \<longleftrightarrow> (\<forall>k\<le>n. f k = None)"
  by (induction n) (auto simp: le_Suc_eq split: option.splits)

lemma firstMatch_Some: "firstMatch f n = Some r \<Longrightarrow> \<exists>k\<le>n. f k = Some r"
  by (induction n) (auto simp: le_Suc_eq split: option.splits)

lemma atomMax_le: "atomMax a s \<le> length s"
  by (cases a; cases s) (simp_all add: length_takeWhile_le)

lemma list_all_take_takeWhile:
  "n \<le> length s \<Longrightarrow> list_all c (take n s) \<longleftrightarrow> n \<le> length (takeWhile c s)"
proof (induction s arbitrary: n)
  case Nil
  then show ?case by simp
next
  case (Cons x xs)
  then show ?case by (cases n) auto
qed

lemma atomAccepts_take: "n \<le> length s \<Longrightarrow> atomAccepts a (take n s) \<longleftrightarrow> n \<le> atomMax a s"
proof (cases a)
  case (Opt c)
  assume "n \<le> length s"
  with Opt show ?thesis
    by (cases s; cases n) (auto split: list.splits)
next
  case (Many c)
  assume "n \<le> length s"
  with Many show ?thesis by (simp add: list_all_take_takeWhile)
qed

lemma inLanguage_Cons:
  "inLanguage (i # r) s \<longleftrightarrow>
     (\<exists>n\<le>length s. itemAccepts i (take n s) \<and> inLanguage r (drop n s))"
proof -
  have "set [0 ..< Suc (length s)] = {n. n \<le> length s}" by auto
  then show ?thesis by simp
qed

lemma inLanguage_atom:
  assumes "itemAccepts i = atomAccepts a"
  shows "inLanguage (i # r) s \<longleftrightarrow> (\<exists>n\<le>atomMax a s. inLanguage r (drop n s))"
proof
  assume "inLanguage (i # r) s"
  then obtain n where "n \<le> length s" "atomAccepts a (take n s)" "inLanguage r (drop n s)"
    unfolding inLanguage_Cons assms by blast
  then show "\<exists>n\<le>atomMax a s. inLanguage r (drop n s)"
    using atomAccepts_take by blast
next
  assume "\<exists>n\<le>atomMax a s. inLanguage r (drop n s)"
  then obtain n where n: "n \<le> atomMax a s" "inLanguage r (drop n s)" by blast
  with atomMax_le [of a s] have "n \<le> length s" by simp
  with n atomAccepts_take [of n s a] show "inLanguage (i # r) s"
    unfolding inLanguage_Cons assms by blast
qed

lemma matchItems_iff_inLanguage: "matchItems re s \<noteq> None \<longleftrightarrow> inLanguage re s"
proof (induction re arbitrary: s)
  case Nil
  show ?case by simp
next
  case (Cons i r)
  show ?case
  proof (cases i)
    case (Group a)
    have "matchItems (Group a # r) s \<noteq> None \<longleftrightarrow> (\<exists>n\<le>atomMax a s. matchItems r (drop n s) \<noteq> None)"
      by (simp add: firstMatch_None)
    also have "\<dots> \<longleftrightarrow> (\<exists>n\<le>atomMax a s. inLanguage r (drop n s))"
      using Cons.IH by simp
    also have "\<dots> \<longleftrightarrow> inLanguage (Group a # r) s"
      by (rule inLanguage_atom [symmetric]) (simp add: fun_eq_iff)
    finally show ?thesis using Group by simp
  next
    case (NonCapture a)
    have "matchItems (NonCapture a # r) s \<noteq> None \<longleftrightarrow> (\<exists>n\<le>atomMax a s. matchItems r (drop n s) \<noteq> None)"
      by (simp add: firstMatch_None)
    also have "\<dots> \<longleftrightarrow> (\<exists>n\<le>atomMax a s. inLanguage r (drop n s))"
      using Cons.IH by simp
    also have "\<dots> \<longleftrightarrow> inLanguage (NonCapture a # r) s"
      by (rule inLanguage_atom [symmetric]) (simp add: fun_eq_iff)
    finally show ?thesis using NonCapture by simp
  next
    case (OptGroup c)
    have "matchItems (OptGroup c # r) s \<noteq> None \<longleftrightarrow>
            (\<exists>n\<le>atomMax (Opt c) s. matchItems r (drop n s) \<noteq> None)"
    proof (cases s)
      case Nil
      then show ?thesis by simp
    next
      case (Cons x xs)
      show ?thesis
      proof (cases "c x")
        case True
        have "(\<exists>n\<le>Suc 0. matchItems r (drop n (x # xs)) \<noteq> None)
                \<longleftrightarrow> matchItems r xs \<noteq> None \<or> matchItems r (x # xs) \<noteq> None"
          by (auto simp: le_Suc_eq)
        with True Cons show ?thesis by (auto split: option.splits)
      next
        case False
        with Cons show ?thesis by simp
      qed
    qed
    also have "\<dots> \<longleftrightarrow> (\<exists>n\<le>atomMax (Opt c) s. inLanguage r (drop n s))"
      using Cons.IH by simp
    also have "\<dots> \<longleftrightarrow> inLanguage (OptGroup c # r) s"
      by (rule inLanguage_atom [symmetric]) (simp add: fun_eq_iff)
    finally show ?thesis using OptGroup by simp
  qed
qed

lemma extract_empty: "getPossibleNumberSubstring [] d = Some []"
  by (cases d)
    (simp_all add: getPossibleNumberSubstring_def prepareStringValue_def regexExec_def
      pastedInputParsingRegex_def slice_def Boolean_def join_def)

text \<open>
  C9: the extractor returns no match exactly when the sanitized string does not belong
  to the grammar, or the raw string is not empty while its sanitized form is; the empty
  raw string gives the empty string.
\<close>

theorem extract_no_match_iff:
  "(getPossibleNumberSubstring v d = None \<longleftrightarrow>
      \<not> inLanguage pastedInputParsingRegex (prepareStringValue v)
      \<or> (v \<noteq> [] \<and> prepareStringValue v = []))
   \<and> getPossibleNumberSubstring [] d = Some []"
proof -
  have "getPossibleNumberSubstring v d = None \<longleftrightarrow>
      matchItems pastedInputParsingRegex (prepareStringValue v) = None
      \<or> (v \<noteq> [] \<and> prepareStringValue v = [])"
    by (auto simp: getPossibleNumberSubstring_def regexExec_def Let_def split: option.splits)
  with matchItems_iff_inLanguage [of pastedInputParsingRegex "prepareStringValue v"] extract_empty [of d]
  show ?thesis by auto
qed

theorem extract_no_match_iff_witness:
  "getPossibleNumberSubstring ''1.2.3'' True = None
   \<and> \<not> inLanguage pastedInputParsingRegex (prepareStringValue ''1.2.3'')
   \<and> getPossibleNumberSubstring ''abc'' True = None
   \<and> inLanguage pastedInputParsingRegex (prepareStringValue ''abc'')
   \<and> getPossibleNumberSubstring ''12,5'' True \<noteq> None
   \<and> inLanguage pastedInputParsingRegex (prepareStringValue ''12,5'')"
proof -
  have a: "getPossibleNumberSubstring ''1.2.3'' True = None"
    "getPossibleNumberSubstring ''abc'' True = None"
    "getPossibleNumberSubstring ''12,5'' True \<noteq> None"
    "prepareStringValue ''1.2.3'' \<noteq> []" "prepareStringValue ''abc'' = []"
    "prepareStringValue ''12,5'' \<noteq> []"
    by code_simp+
  have b: "inLanguage pastedInputParsingRegex []" 
    by code_simp
  from a b extract_no_match_iff [of "''1.2.3''" True] extract_no_match_iff [of "''12,5''" True]
  show ?thesis by simp
qed

text \<open>The captures of the first two groups: a sign or nothing, and digits.\<close>

lemma matchItems_Group:
  assumes "matchItems (Group a # r) s = Some caps"
  obtains n caps' where "n \<le> atomMax a s" "caps = Some (take n s) # caps'"
    "matchItems r (drop n s) = Some caps'"
  using assms firstMatch_Some [of _ "atomMax a s" caps] by fastforce

lemma matchItems_NonCapture:
  assumes "matchItems (NonCapture a # r) s = Some caps"
  obtains n where "n \<le> atomMax a s" "matchItems r (drop n s) = Some caps"
  using assms firstMatch_Some [of _ "atomMax a s" caps] by fastforce

lemma join_filter_Boolean: "join (filter Boolean xs) = join xs"
  by (induction xs) (auto simp: join_def Boolean_def split: option.splits)

lemma opt_sign_take:
  assumes "n \<le> atomMax (Opt isSign) s"
  shows "take n s = [] \<or> (\<exists>x. take n s = [x] \<and> isSign x)"
  using assms by (cases s; cases n) (auto split: if_splits)

lemma digits_take:
  assumes "n \<le> atomMax (Many isDigit) s"
  shows "list_all isDigit (take n s)"
  using assms atomAccepts_take [of n s "Many isDigit"] atomMax_le [of "Many isDigit" s]
  by simp

lemma pasted_captures:
  assumes "matchItems pastedInputParsingRegex s = Some caps"
  obtains g1 g2 rest where "caps = Some g1 # Some g2 # rest"
    "g1 = [] \<or> (\<exists>x. g1 = [x] \<and> isSign x)" "list_all isDigit g2"
proof -
  from assms obtain n1 c1 where n1: "n1 \<le> atomMax (Opt isSign) s"
    and caps: "caps = Some (take n1 s) # c1"
    and m1: "matchItems [NonCapture (Many nonDigit), Group (Many isDigit),
      OptGroup isSeparator, Group (Many isDigit), NonCapture (Many nonDigit)] (drop n1 s) = Some c1"
    unfolding pastedInputParsingRegex_def by (rule matchItems_Group)
  from m1 obtain n2 where
    m2: "matchItems [Group (Many isDigit),
      OptGroup isSeparator, Group (Many isDigit), NonCapture (Many nonDigit)]
      (drop n2 (drop n1 s)) = Some c1"
    by (rule matchItems_NonCapture)
  from m2 obtain n3 c3 where n3: "n3 \<le> atomMax (Many isDigit) (drop n2 (drop n1 s))"
    and c1: "c1 = Some (take n3 (drop n2 (drop n1 s))) # c3"
    by (rule matchItems_Group)
  show thesis
  proof (rule that)
    show "caps = Some (take n1 s) # Some (take n3 (drop n2 (drop n1 s))) # c3"
      using caps c1 by simp
    show "take n1 s = [] \<or> (\<exists>x. take n1 s = [x] \<and> isSign x)"
      using n1 by (rule opt_sign_take)
    show "list_all isDigit (take n3 (drop n2 (drop n1 s)))"
      using n3 by (rule digits_take)
  qed
qed

lemma isDigit_not_separator: "isDigit c \<Longrightarrow> c \<noteq> CHR ''.'' \<and> c \<noteq> CHR '',''"
  by (auto simp: isDigit_def)

lemma isSign_not_separator: "isSign c \<Longrightarrow> c \<noteq> CHR ''.'' \<and> c \<noteq> CHR '',''"
  by (auto simp: isSign_def)

text \<open>
  C10: without decimals, a string returned by the extractor is an optional leading sign
  followed by digits only; it contains neither a period nor a comma, whatever the input.
\<close>

theorem extract_integer_only:
  assumes "getPossibleNumberSubstring v False = Some r"
  shows "signedDigits r \<and> CHR ''.'' \<notin> set r \<and> CHR '','' \<notin> set r"
proof -
  from assms obtain caps where
    m: "matchItems pastedInputParsingRegex (prepareStringValue v) = Some caps"
    and r: "r = join (filter Boolean (slice 1 (Some 3) (Some (prepareStringValue v) # caps)))"
    by (auto simp: getPossibleNumberSubstring_def regexExec_def Let_def
        split: option.splits if_splits)
  from m obtain g1 g2 rest where caps: "caps = Some g1 # Some g2 # rest"
    and g1: "g1 = [] \<or> (\<exists>x. g1 = [x] \<and> isSign x)" and g2: "list_all isDigit g2"
    by (rule pasted_captures)
  from r have "r = join (slice 1 (Some 3) (Some (prepareStringValue v) # caps))"
    by (simp only: join_filter_Boolean)
  with caps have r': "r = g1 @ g2"
    by (simp add: slice_def join_def)
  from g2 have d: "\<forall>c\<in>set g2. isDigit c" by (simp add: list_all_iff)
  from g1 show ?thesis
  proof
    assume "g1 = []"
    with r' g2 d show ?thesis
      by (cases g2) (auto simp: signedDigits_def list_all_iff dest: isDigit_not_separator)
  next
    assume "\<exists>x. g1 = [x] \<and> isSign x"
    then obtain x where "g1 = [x]" "isSign x" by blast
    with r' g2 d show ?thesis
      by (auto simp: signedDigits_def dest: isDigit_not_separator isSign_not_separator)
  qed
qed

theorem extract_integer_only_witness:
  "getPossibleNumberSubstring ''- $123 456,78k'' False = Some ''-123456''
   \<and> signedDigits ''-123456'' \<and> CHR ''.'' \<notin> set ''-123456'' \<and> CHR '','' \<notin> set ''-123456''"
proof -
  have a: "getPossibleNumberSubstring ''- $123 456,78k'' False = Some ''-123456''"
    by code_simp
  from a extract_integer_only [OF a] show ?thesis by simp
qed

end
